theory Spec2Isabelle
  imports Main
begin

section \<open>Data model of \<open>httpclientutil/client.go\<close>\<close>

text \<open>
  The package-level error values. A Go \<open>error\<close> interface value is an \<open>error option\<close>:
  \<open>None\<close> is \<open>nil\<close>. \<open>OtherError\<close> stands for the errors that come from the
  collaborators (request serialization, response parsing, the request's context, the
  transport's own \<open>Close\<close>).
\<close>

datatype error =
    ErrPersistEOF
  | ErrClosed
  | ErrPipeline
  | ErrBodyWaitingRead
  | ErrBodyLeftData
  | ErrServerClosedConn
  | errClosed
  | OtherError string

text \<open>The transport (\<open>net.Conn\<close>) is known by its identity only; a nil interface is \<open>None\<close>.\<close>

type_synonym netconn = nat

text \<open>
  A \<open>*bufio.Reader\<close>: either made by \<open>bufio.NewReader(c)\<close> over the transport, or
  supplied by the caller.
\<close>

datatype reader = NewReader "netconn option" | GivenReader nat

text \<open>
  The request fields that the file reads: \<open>Method\<close>, \<open>Close\<close>, and the context as the
  \<open>select\<close> in \<open>read\<close> sees it: \<open>None\<close> while \<open>ctx.Done()\<close> is open, \<open>Some e\<close> once it
  is closed, \<open>e\<close> being \<open>ctx.Err()\<close> (non-nil by the contract of \<open>context.Context\<close>).
\<close>

record request =
  Method :: string
  req_Close :: bool
  Context :: "error option"

text \<open>
  A response body is the parsed body, or that body wrapped by the read loop in its
  \<open>bodyEOFSignal\<close>.
\<close>

datatype body = ParsedBody string | bodyEOFSignal body

record response =
  StatusCode :: int
  resp_Close :: bool
  ContentLength :: int
  Body :: body

text \<open>
  A channel of \<open>struct{}\<close> that carries no value: the nil channel (the zero value of the
  field), an open channel, or a closed one.
\<close>

datatype chan = NilChan | OpenChan | ClosedChan

text \<open>The two serialization strategies: \<open>(*http.Request).Write\<close> and \<open>WriteProxy\<close>.\<close>

datatype form = Write_form | WriteProxy_form

text \<open>
  The struct \<open>ClientConn\<close>. The mutex is not a field of the model: every function below
  is one critical section or a sequence of them, run without interference. The two
  buffered channels are the lists of their queued elements, oldest first; both are made
  with capacity one.
\<close>

record ClientConn =
  conn :: "netconn option"
  r :: "reader option"
  bodyReading :: bool
  re :: "error option"
  we :: "error option"
  reqch :: "request list"
  respch :: "response list"
  closech :: chan
  writeReq :: form

definition reqch_cap :: nat where
  "reqch_cap = 1"

definition respch_cap :: nat where
  "respch_cap = 1"

text \<open>
  What a call does besides changing the struct: it returns, it blocks for ever on a
  channel operation, or it panics.
\<close>

datatype 'a outcome = Returns 'a | Blocks | Panics

text \<open>The calls a function makes on the collaborators, in order.\<close>

datatype io =
    WriteReq form request "netconn option"
  | ConnClose netconn

section \<open>Construction\<close>

text \<open>
  \<open>NewClientConn\<close>: the struct literal sets \<open>conn\<close>, \<open>r\<close>, \<open>reqch\<close>, \<open>respch\<close> and
  \<open>writeReq\<close>; every other field keeps its zero value, \<open>closech\<close> included.
\<close>

definition NewClientConn :: "netconn option \<Rightarrow> reader option \<Rightarrow> ClientConn" where
  "NewClientConn c rd =
     \<lparr> conn = c,
       r = (case rd of None \<Rightarrow> Some (NewReader c) | Some b \<Rightarrow> Some b),
       bodyReading = False,
       re = None,
       we = None,
       reqch = [],
       respch = [],
       closech = NilChan,
       writeReq = Write_form \<rparr>"

definition NewProxyClientConn :: "netconn option \<Rightarrow> reader option \<Rightarrow> ClientConn" where
  "NewProxyClientConn c rd = (NewClientConn c rd)\<lparr>writeReq := WriteProxy_form\<rparr>"

section \<open>The operations of a caller\<close>

definition waitForBody :: "ClientConn \<Rightarrow> bool" where
  "waitForBody s = bodyReading s"

definition Ping :: "ClientConn \<Rightarrow> error option" where
  "Ping s =
     (if re s \<noteq> None then re s
      else if we s \<noteq> None then we s
      else if conn s = None then Some errClosed
      else None)"

definition setReadError :: "error option \<Rightarrow> ClientConn \<Rightarrow> ClientConn" where
  "setReadError err s = s\<lparr>re := err\<rparr>"

definition setBodyReading :: "bool \<Rightarrow> ClientConn \<Rightarrow> ClientConn" where
  "setBodyReading flag s = s\<lparr>bodyReading := flag\<rparr>"

definition Hijack :: "ClientConn \<Rightarrow> (netconn option \<times> reader option) \<times> ClientConn" where
  "Hijack s = ((conn s, r s), s\<lparr>conn := None, r := None\<rparr>)"

text \<open>
  \<open>Close\<close>; \<open>cerr\<close> is what the transport's own \<open>Close\<close> returns. Closing a nil channel
  and closing a closed channel panic.
\<close>

definition Close :: "error option \<Rightarrow> ClientConn \<Rightarrow> error option outcome \<times> ClientConn \<times> io list" where
  "Close cerr s =
     (case Hijack s of
        ((c, _), s1) \<Rightarrow>
          (case c of
             Some n \<Rightarrow> (Returns cerr, s1, [ConnClose n])
           | None \<Rightarrow>
               (case closech s1 of
                  NilChan \<Rightarrow> (Panics, s1, [])
                | ClosedChan \<Rightarrow> (Panics, s1, [])
                | OpenChan \<Rightarrow> (Returns None, s1\<lparr>closech := ClosedChan\<rparr>, []))))"

text \<open>
  \<open>write\<close>, lines 71 to 83: the liveness check, the body check, and the critical section
  that reads \<open>conn\<close> and marks the final request. \<open>Inl\<close> is an early return;
  \<open>Inr (c, s')\<close> is the local \<open>c\<close> and the struct at the call of \<open>writeReq\<close>.
\<close>

definition write_begin :: "request \<Rightarrow> ClientConn \<Rightarrow> error + (netconn option \<times> ClientConn)" where
  "write_begin req s =
     (case Ping s of
        Some err \<Rightarrow> Inl err
      | None \<Rightarrow>
          if waitForBody s then Inl ErrBodyWaitingRead
          else Inr (conn s, if req_Close req then s\<lparr>we := Some ErrPersistEOF\<rparr> else s))"

text \<open>
  \<open>write\<close>, lines 85 to 93, \<open>err\<close> being what \<open>writeReq\<close> returned. The send on the full
  channel blocks. The whole method is \<open>write_cc\<close> (\<open>write\<close> is a keyword of Isabelle).
\<close>

definition write_end :: "error option \<Rightarrow> request \<Rightarrow> ClientConn \<Rightarrow> error option outcome \<times> ClientConn" where
  "write_end err req s =
     (case err of
        Some e \<Rightarrow> (Returns (Some e), s\<lparr>we := Some e\<rparr>)
      | None \<Rightarrow>
          if length (reqch s) < reqch_cap
          then (Returns None, s\<lparr>reqch := reqch s @ [req]\<rparr>)
          else (Blocks, s))"

definition write_cc :: "error option \<Rightarrow> request \<Rightarrow> ClientConn \<Rightarrow> error option outcome \<times> ClientConn \<times> io list" where
  "write_cc err req s =
     (case write_begin req s of
        Inl e \<Rightarrow> (Returns (Some e), s, [])
      | Inr (c, s1) \<Rightarrow>
          (case write_end err req s1 of
             (res, s2) \<Rightarrow> (res, s2, [WriteReq (writeReq s1) req c])))"

text \<open>
  \<open>read\<close>. The \<open>select\<close> takes the one case that is ready; when both are,
  \<open>pick_cancel\<close> is the choice the runtime makes; when none is, it blocks.
\<close>

definition read :: "bool \<Rightarrow> request \<Rightarrow> ClientConn \<Rightarrow> (response option \<times> error option) outcome \<times> ClientConn" where
  "read pick_cancel req s =
     (case (respch s, Context req) of
        ([], None) \<Rightarrow> (Blocks, s)
      | ([], Some e) \<Rightarrow> (Returns (None, Some e), setReadError (Some e) s)
      | (resp # rest, None) \<Rightarrow> (Returns (Some resp, None), s\<lparr>respch := rest\<rparr>)
      | (resp # rest, Some e) \<Rightarrow>
          if pick_cancel then (Returns (None, Some e), setReadError (Some e) s)
          else (Returns (Some resp, None), s\<lparr>respch := rest\<rparr>))"

section \<open>The read loop\<close>

text \<open>
  The goroutine \<open>readLoop\<close> stands at one of its blocking points: at the top of the
  loop with \<open>alive\<close> true (\<open>Waiting\<close>); inside \<open>Peek\<close> (\<open>Peeking\<close>); at the receive
  from \<open>reqch\<close> (\<open>Pulling\<close>); inside \<open>http.ReadResponse\<close> for the request pulled
  (\<open>Parsing\<close>); at the send of the wrapped response to \<open>respch\<close> (\<open>Publishing\<close>, with
  the response and \<open>alive\<close>); at the \<open>select\<close> on the body outcome and \<open>closech\<close>
  (\<open>Draining\<close>, with \<open>alive\<close>); or it has left the loop (\<open>Stopped\<close>).
\<close>

datatype loop =
    Waiting
  | Peeking
  | Pulling
  | Parsing request
  | Publishing response bool
  | Draining bool
  | Stopped

text \<open>Line 161, the local \<open>hasBody\<close>.\<close>

definition hasBody :: "request \<Rightarrow> response \<Rightarrow> bool" where
  "hasBody rc resp = (Method rc \<noteq> ''HEAD'' \<and> ContentLength resp \<noteq> 0)"

text \<open>Line 162, the condition under which \<open>alive\<close> is cleared.\<close>

definition last_exchange :: "request \<Rightarrow> response \<Rightarrow> bool" where
  "last_exchange rc resp = (resp_Close resp \<or> req_Close rc \<or> StatusCode resp \<le> 199)"

text \<open>
  The status codes of the informational class, 100 to 199. The source has no such
  test; this is the class that the description of line 162 speaks of.
\<close>

definition spec_informational :: "int \<Rightarrow> bool" where
  "spec_informational code = (100 \<le> code \<and> code \<le> 199)"

text \<open>The \<open>for alive\<close> test that a \<open>continue\<close> or the end of the body comes back to.\<close>

definition loop_test :: "bool \<Rightarrow> loop" where
  "loop_test alive = (if alive then Waiting else Stopped)"

text \<open>
  Line 150, the call: \<open>Peek\<close> on the nil reader that \<open>Hijack\<close> leaves is a nil
  dereference.
\<close>

definition readLoop_peek_call :: "ClientConn \<Rightarrow> (loop \<times> ClientConn) outcome" where
  "readLoop_peek_call s =
     (case r s of
        None \<Rightarrow> Panics
      | Some _ \<Rightarrow> Returns (Peeking, s))"

text \<open>Lines 150 to 154, the return of \<open>Peek\<close>; \<open>perr\<close> is its error.\<close>

definition readLoop_peek :: "error option \<Rightarrow> ClientConn \<Rightarrow> (loop \<times> ClientConn) outcome" where
  "readLoop_peek perr s =
     (case perr of
        Some _ \<Rightarrow> Returns (Stopped, setReadError (Some ErrServerClosedConn) s)
      | None \<Rightarrow> Returns (Pulling, s))"

text \<open>
  Lines 155 and 156: the receive, which blocks on the empty queue, and the call of
  \<open>http.ReadResponse\<close> with \<open>cc.r\<close>.
\<close>

definition readLoop_pull :: "ClientConn \<Rightarrow> (loop \<times> ClientConn) outcome" where
  "readLoop_pull s =
     (case reqch s of
        [] \<Rightarrow> Blocks
      | rc # rest \<Rightarrow>
          (case r s of
             None \<Rightarrow> Panics
           | Some _ \<Rightarrow> Returns (Parsing rc, s\<lparr>reqch := rest\<rparr>)))"

text \<open>
  Lines 156 to 181; \<open>parsed\<close> is what \<open>http.ReadResponse\<close> returns for the request
  \<open>rc\<close>. The body outcome that the two callbacks of the wrapper send is not part of the
  response here: it is the \<open>signal\<close> of \<open>readLoop_drain\<close>.
\<close>

definition readLoop_response :: "request \<Rightarrow> error + response \<Rightarrow> ClientConn \<Rightarrow> (loop \<times> ClientConn) outcome" where
  "readLoop_response rc parsed s =
     (case parsed of
        Inl err \<Rightarrow> Returns (Stopped, setReadError (Some err) s)
      | Inr resp \<Rightarrow>
          (let alive = \<not> last_exchange rc resp;
               s1 = (if last_exchange rc resp
                     then setReadError (Some ErrServerClosedConn) s
                     else s)
           in if \<not> hasBody rc resp then Returns (loop_test alive, s1)
              else Returns (Publishing (resp\<lparr>Body := bodyEOFSignal (Body resp)\<rparr>) alive, s1)))"

text \<open>Lines 182 and 183. The send blocks on the full queue.\<close>

definition readLoop_publish :: "response \<Rightarrow> bool \<Rightarrow> ClientConn \<Rightarrow> (loop \<times> ClientConn) outcome" where
  "readLoop_publish resp alive s =
     (if length (respch s) < respch_cap
      then Returns (Draining alive, setBodyReading True (s\<lparr>respch := respch s @ [resp]\<rparr>))
      else Blocks)"

text \<open>
  Lines 184 to 194. \<open>signal\<close> is the value waiting in \<open>waitForBodyRead\<close>, if any; the
  receive from \<open>closech\<close> is ready when that channel is closed, and never on the nil
  channel; \<open>pick_close\<close> is the choice of the runtime when both cases are ready.
\<close>

definition readLoop_drain :: "bool \<Rightarrow> bool option \<Rightarrow> bool \<Rightarrow> ClientConn \<Rightarrow> (loop \<times> ClientConn) outcome" where
  "readLoop_drain pick_close signal alive s =
     (case signal of
        None \<Rightarrow>
          if closech s = ClosedChan then Returns (loop_test False, setBodyReading False s)
          else Blocks
      | Some bodyEOF \<Rightarrow>
          if closech s = ClosedChan \<and> pick_close
          then Returns (loop_test False, setBodyReading False s)
          else Returns (loop_test (alive \<and> bodyEOF),
                 setBodyReading False
                   (if \<not> bodyEOF then setReadError (Some ErrBodyLeftData) s else s)))"

section \<open>The connection with its goroutine and its callers\<close>

text \<open>
  The struct, where the read loop stands, the requests of the calls of \<open>write\<close> that are
  inside \<open>writeReq\<close>, and those of the calls that are blocked at their send to \<open>reqch\<close>.
\<close>

record sys =
  cc :: ClientConn
  loop :: loop
  writing :: "request list"
  blocked :: "request list"

definition start :: "netconn option \<Rightarrow> reader option \<Rightarrow> sys" where
  "start c rd = \<lparr> cc = NewClientConn c rd, loop = Waiting, writing = [], blocked = [] \<rparr>"

text \<open>
  One action: a call of a caller, run from its entry to its return or to the point where
  it blocks, or the read loop going from one blocking point to the next. Each carries
  what the collaborators and the runtime answer. A \<open>write\<close> is in two actions, the part
  before \<open>writeReq\<close> and the part after it; a \<open>Do\<close> is a \<open>write\<close> and, when that
  returns nil, a \<open>read\<close>.
\<close>

datatype action =
    DoPing
  | DoHijack
  | DoClose "error option"
  | WriteBegin request
  | WriteEnd "error option" request
  | SendBlocked
  | DoRead bool request
  | LoopPeekCall
  | LoopPeek "error option"
  | LoopPull
  | LoopResponse "error + response"
  | LoopPublish
  | LoopDrain bool "bool option"

definition loop_goes :: "sys \<Rightarrow> (loop \<times> ClientConn) outcome \<Rightarrow> sys option" where
  "loop_goes s res =
     (case res of
        Returns (l, c) \<Rightarrow> Some (s\<lparr>cc := c, loop := l\<rparr>)
      | Blocks \<Rightarrow> None
      | Panics \<Rightarrow> None)"

text \<open>
  \<open>step a s\<close> is \<open>None\<close> when the action cannot happen in \<open>s\<close>: the loop stands
  elsewhere, no such call is under way, the call blocks before it has changed anything,
  or it panics, which ends the program.
\<close>

fun step :: "action \<Rightarrow> sys \<Rightarrow> sys option" where
  "step DoPing s = Some s"
| "step DoHijack s = Some (s\<lparr>cc := snd (Hijack (cc s))\<rparr>)"
| "step (DoClose cerr) s =
     (case Close cerr (cc s) of
        (Returns _, c, _) \<Rightarrow> Some (s\<lparr>cc := c\<rparr>)
      | (Blocks, _, _) \<Rightarrow> None
      | (Panics, _, _) \<Rightarrow> None)"
| "step (WriteBegin req) s =
     (case write_begin req (cc s) of
        Inl _ \<Rightarrow> Some s
      | Inr (_, c) \<Rightarrow> Some (s\<lparr>cc := c, writing := writing s @ [req]\<rparr>))"
| "step (WriteEnd err req) s =
     (if req \<in> set (writing s)
      then (case write_end err req (cc s) of
              (Returns _, c) \<Rightarrow> Some (s\<lparr>cc := c, writing := remove1 req (writing s)\<rparr>)
            | (Blocks, c) \<Rightarrow>
                Some (s\<lparr>cc := c, writing := remove1 req (writing s), blocked := blocked s @ [req]\<rparr>)
            | (Panics, _) \<Rightarrow> None)
      else None)"
| "step SendBlocked s =
     (case blocked s of
        [] \<Rightarrow> None
      | req # rest \<Rightarrow>
          if length (reqch (cc s)) < reqch_cap
          then Some (s\<lparr>cc := (cc s)\<lparr>reqch := reqch (cc s) @ [req]\<rparr>, blocked := rest\<rparr>)
          else None)"
| "step (DoRead pick_cancel req) s =
     (case read pick_cancel req (cc s) of
        (Returns _, c) \<Rightarrow> Some (s\<lparr>cc := c\<rparr>)
      | (Blocks, _) \<Rightarrow> None
      | (Panics, _) \<Rightarrow> None)"
| "step LoopPeekCall s =
     (case loop s of Waiting \<Rightarrow> loop_goes s (readLoop_peek_call (cc s)) | _ \<Rightarrow> None)"
| "step (LoopPeek perr) s =
     (case loop s of Peeking \<Rightarrow> loop_goes s (readLoop_peek perr (cc s)) | _ \<Rightarrow> None)"
| "step LoopPull s =
     (case loop s of Pulling \<Rightarrow> loop_goes s (readLoop_pull (cc s)) | _ \<Rightarrow> None)"
| "step (LoopResponse parsed) s =
     (case loop s of
        Parsing rc \<Rightarrow> loop_goes s (readLoop_response rc parsed (cc s))
      | _ \<Rightarrow> None)"
| "step LoopPublish s =
     (case loop s of
        Publishing resp alive \<Rightarrow> loop_goes s (readLoop_publish resp alive (cc s))
      | _ \<Rightarrow> None)"
| "step (LoopDrain pick_close signal) s =
     (case loop s of
        Draining alive \<Rightarrow> loop_goes s (readLoop_drain pick_close signal alive (cc s))
      | _ \<Rightarrow> None)"

fun run :: "action list \<Rightarrow> sys \<Rightarrow> sys option" where
  "run [] s = Some s"
| "run (a # as) s = (case step a s of None \<Rightarrow> None | Some s' \<Rightarrow> run as s')"

text \<open>The liveness check at the end of a run, when the run is possible.\<close>

definition Ping_after :: "action list \<Rightarrow> sys \<Rightarrow> error option option" where
  "Ping_after as s = map_option (\<lambda>s'. Ping (cc s')) (run as s)"

section \<open>What every action keeps\<close>

lemmas conn_defs =
  NewClientConn_def start_def Ping_def Ping_after_def waitForBody_def setReadError_def
  setBodyReading_def Hijack_def Close_def write_begin_def write_end_def write_cc_def read_def
  hasBody_def last_exchange_def loop_test_def readLoop_peek_call_def readLoop_peek_def
  readLoop_pull_def readLoop_response_def readLoop_publish_def readLoop_drain_def
  loop_goes_def reqch_cap_def respch_cap_def

lemma step_keeps:
  assumes "step a s = Some s'"
  shows "(re (cc s) \<noteq> None \<longrightarrow> re (cc s') \<noteq> None)
     \<and> (we (cc s) \<noteq> None \<longrightarrow> we (cc s') \<noteq> None)
     \<and> (conn (cc s) = None \<longrightarrow> conn (cc s') = None)
     \<and> (closech (cc s) = NilChan \<longrightarrow> closech (cc s') = NilChan)"
  using assms
  by (cases a)
    (auto simp: Hijack_def Close_def write_begin_def write_end_def read_def
      setReadError_def setBodyReading_def loop_goes_def readLoop_peek_call_def
      readLoop_peek_def readLoop_pull_def readLoop_response_def
      readLoop_publish_def readLoop_drain_def Let_def
      split: option.splits list.splits sum.splits if_splits prod.splits outcome.splits
        loop.splits chan.splits)

lemma run_keeps:
  "run as s = Some s' \<Longrightarrow>
     (re (cc s) \<noteq> None \<longrightarrow> re (cc s') \<noteq> None)
     \<and> (we (cc s) \<noteq> None \<longrightarrow> we (cc s') \<noteq> None)
     \<and> (conn (cc s) = None \<longrightarrow> conn (cc s') = None)
     \<and> (closech (cc s) = NilChan \<longrightarrow> closech (cc s') = NilChan)"
proof (induction as arbitrary: s)
  case Nil
  then show ?case by simp
next
  case (Cons a as)
  from Cons.prems obtain t where t: "step a s = Some t" and u: "run as t = Some s'"
    by (auto split: option.splits)
  from step_keeps [OF t] Cons.IH [OF u] show ?case by blast
qed

text \<open>
  No statement of the file assigns \<open>closech\<close>: it is the nil channel through every run
  of a connection made by \<open>NewClientConn\<close>, and a \<open>Close\<close> that finds the transport
  detached panics there.
\<close>

lemma closech_stays_nil: "run as (start c rd) = Some s' \<Longrightarrow> closech (cc s') = NilChan"
  using run_keeps [of as "start c rd" s'] by (simp add: start_def NewClientConn_def)

lemma Close_detached_panics: "conn s = None \<Longrightarrow> closech s = NilChan \<Longrightarrow> fst (Close cerr s) = Panics"
  by (simp add: Close_def Hijack_def)

section \<open>The write path\<close>

lemma Ping_None_iff: "Ping s = None \<longleftrightarrow> re s = None \<and> we s = None \<and> conn s \<noteq> None"
  by (auto simp: Ping_def)

text \<open>
  C3: a \<open>write\<close> that passes the liveness check while \<open>bodyReading\<close> is true returns
  \<open>ErrBodyWaitingRead\<close>; it calls no serializer and leaves the struct, the request queue
  included, as it was.
\<close>

theorem write_body_pending:
  assumes "Ping s = None" and "bodyReading s"
  shows "write_cc err req s = (Returns (Some ErrBodyWaitingRead), s, [])"
  using assms by (simp add: write_cc_def write_begin_def waitForBody_def)

theorem write_body_pending_witness:
  "Ping ((NewClientConn (Some 3) None)\<lparr>bodyReading := True\<rparr>) = None
   \<and> bodyReading ((NewClientConn (Some 3) None)\<lparr>bodyReading := True\<rparr>)
   \<and> write_cc None \<lparr>Method = ''GET'', req_Close = False, Context = None\<rparr>
        ((NewClientConn (Some 3) None)\<lparr>bodyReading := True\<rparr>)
      = (Returns (Some ErrBodyWaitingRead), (NewClientConn (Some 3) None)\<lparr>bodyReading := True\<rparr>, [])"
proof -
  have p: "Ping ((NewClientConn (Some 3) None)\<lparr>bodyReading := True\<rparr>) = None"
    by (simp add: Ping_def NewClientConn_def)
  have b: "bodyReading ((NewClientConn (Some 3) None)\<lparr>bodyReading := True\<rparr>)"
    by simp
  show ?thesis
    using p b write_body_pending [OF p b, of None "\<lparr>Method = ''GET'', req_Close = False, Context = None\<rparr>"]
    by simp
qed

text \<open>
  C10: when \<open>writeReq\<close> fails, \<open>write\<close> stores the error in \<open>we\<close> and returns it, and the
  request queue is as before; whatever \<open>writeReq\<close> returns, the queue changes only when
  \<open>write\<close> returns nil, and then by this request at its end.
\<close>

theorem write_serialize_failure:
  "(Ping s = None \<and> \<not> bodyReading s \<longrightarrow>
      (case write_cc (Some e) req s of
         (res, s', tr) \<Rightarrow>
           res = Returns (Some e) \<and> we s' = Some e \<and> reqch s' = reqch s
           \<and> tr = [WriteReq (writeReq s) req (conn s)]))
   \<and> (case write_cc err req s of
         (res, s', tr) \<Rightarrow>
           reqch s' \<noteq> reqch s \<longrightarrow> res = Returns None \<and> reqch s' = reqch s @ [req])"
  by (simp add: write_cc_def write_begin_def write_end_def waitForBody_def
      split: option.split)

theorem write_serialize_failure_witness:
  "Ping (NewClientConn (Some 3) None) = None
   \<and> \<not> bodyReading (NewClientConn (Some 3) None)
   \<and> write_cc (Some (OtherError ''broken pipe'')) \<lparr>Method = ''GET'', req_Close = False, Context = None\<rparr>
        (NewClientConn (Some 3) None)
      = (Returns (Some (OtherError ''broken pipe'')),
         (NewClientConn (Some 3) None)\<lparr>we := Some (OtherError ''broken pipe'')\<rparr>,
         [WriteReq Write_form \<lparr>Method = ''GET'', req_Close = False, Context = None\<rparr> (Some 3)])
   \<and> reqch (fst (snd (write_cc None \<lparr>Method = ''GET'', req_Close = False, Context = None\<rparr>
        (NewClientConn (Some 3) None)))) \<noteq> reqch (NewClientConn (Some 3) None)
   \<and> fst (write_cc None \<lparr>Method = ''GET'', req_Close = False, Context = None\<rparr>
        (NewClientConn (Some 3) None)) = Returns None"
  using write_serialize_failure [of "NewClientConn (Some 3) None" "OtherError ''broken pipe''"
      "\<lparr>Method = ''GET'', req_Close = False, Context = None\<rparr>" None]
  by (simp add: write_cc_def write_begin_def write_end_def waitForBody_def Ping_def
      NewClientConn_def reqch_cap_def)

text \<open>
  C7: for a request with \<open>Close\<close> set that passes both checks, \<open>we\<close> is
  \<open>ErrPersistEOF\<close> in the struct that \<open>writeReq\<close> is called on, so the liveness check
  fails there already; the write goes on: \<open>writeReq\<close> is called and, when it succeeds
  and the queue has room, the request is queued and nil returned; on the struct the
  write leaves, whatever \<open>writeReq\<close> returned, and on the struct after any run from
  there, another \<open>write\<close> returns the error of the liveness check and does nothing
  else.
\<close>

theorem write_final_request:
  assumes "req_Close req" and "Ping s = None" and "\<not> bodyReading s"
  shows "write_begin req s = Inr (conn s, s\<lparr>we := Some ErrPersistEOF\<rparr>)
     \<and> Ping (s\<lparr>we := Some ErrPersistEOF\<rparr>) = Some ErrPersistEOF
     \<and> write_cc err req s =
         (fst (write_end err req (s\<lparr>we := Some ErrPersistEOF\<rparr>)),
          snd (write_end err req (s\<lparr>we := Some ErrPersistEOF\<rparr>)),
          [WriteReq (writeReq s) req (conn s)])
     \<and> (reqch s = [] \<longrightarrow>
          write_cc None req s =
            (Returns None, s\<lparr>we := Some ErrPersistEOF, reqch := [req]\<rparr>,
             [WriteReq (writeReq s) req (conn s)]))
     \<and> Ping (fst (snd (write_cc err req s))) \<noteq> None
     \<and> write_cc err' req' (fst (snd (write_cc err req s)))
         = (Returns (Ping (fst (snd (write_cc err req s)))), fst (snd (write_cc err req s)), [])
     \<and> (\<forall>as l w b t.
          run as \<lparr>cc = fst (snd (write_cc err req s)), loop = l, writing = w, blocked = b\<rparr> = Some t \<longrightarrow>
          Ping (cc t) \<noteq> None
          \<and> write_cc err' req' (cc t) = (Returns (Ping (cc t)), cc t, []))"
proof -
  let ?s1 = "s\<lparr>we := Some ErrPersistEOF\<rparr>"
  from assms have b: "write_begin req s = Inr (conn s, ?s1)"
    by (simp add: write_begin_def waitForBody_def)
  from assms(2) have p1: "Ping ?s1 = Some ErrPersistEOF"
    by (auto simp: Ping_def)
  have w: "write_cc err req s =
      (fst (write_end err req ?s1), snd (write_end err req ?s1), [WriteReq (writeReq s) req (conn s)])"
    by (simp add: write_cc_def b split: prod.split)
  have q: "reqch s = [] \<longrightarrow> write_cc None req s =
      (Returns None, s\<lparr>we := Some ErrPersistEOF, reqch := [req]\<rparr>, [WriteReq (writeReq s) req (conn s)])"
    by (simp add: write_cc_def b write_end_def reqch_cap_def)
  have we2: "we (snd (write_end err req ?s1)) \<noteq> None"
    by (simp add: write_end_def split: option.split)
  then have p2: "Ping (fst (snd (write_cc err req s))) \<noteq> None"
    by (simp add: w Ping_def)
  then obtain y where y: "Ping (fst (snd (write_cc err req s))) = Some y"
    by auto
  have l: "write_cc err' req' (fst (snd (write_cc err req s)))
      = (Returns (Ping (fst (snd (write_cc err req s)))), fst (snd (write_cc err req s)), [])"
    unfolding y by (simp add: write_cc_def [of err' req'] write_begin_def y)
  have m: "Ping (cc t) \<noteq> None \<and> write_cc err' req' (cc t) = (Returns (Ping (cc t)), cc t, [])"
    if "run as \<lparr>cc = fst (snd (write_cc err req s)), loop = l, writing = w, blocked = b\<rparr> = Some t"
    for as l w b t
  proof -
    from we2 have "we (fst (snd (write_cc err req s))) \<noteq> None"
      by (simp add: w)
    with run_keeps [OF that] have "we (cc t) \<noteq> None"
      by simp
    then have n: "Ping (cc t) \<noteq> None"
      by (simp add: Ping_def)
    then obtain z where z: "Ping (cc t) = Some z"
      by auto
    have "write_cc err' req' (cc t) = (Returns (Ping (cc t)), cc t, [])"
      unfolding z by (simp add: write_cc_def [of err' req'] write_begin_def z)
    with n show ?thesis by simp
  qed
  from b p1 w q p2 l m show ?thesis by blast
qed

theorem write_final_request_witness:
  "req_Close \<lparr>Method = ''GET'', req_Close = True, Context = None\<rparr>
   \<and> Ping (NewClientConn (Some 3) None) = None
   \<and> \<not> bodyReading (NewClientConn (Some 3) None)
   \<and> write_cc None \<lparr>Method = ''GET'', req_Close = True, Context = None\<rparr> (NewClientConn (Some 3) None)
      = (Returns None,
         (NewClientConn (Some 3) None)
           \<lparr>we := Some ErrPersistEOF, reqch := [\<lparr>Method = ''GET'', req_Close = True, Context = None\<rparr>]\<rparr>,
         [WriteReq Write_form \<lparr>Method = ''GET'', req_Close = True, Context = None\<rparr> (Some 3)])
   \<and> write_cc None \<lparr>Method = ''GET'', req_Close = False, Context = None\<rparr>
        (fst (snd (write_cc None \<lparr>Method = ''GET'', req_Close = True, Context = None\<rparr>
           (NewClientConn (Some 3) None))))
      = (Returns (Some ErrPersistEOF),
         fst (snd (write_cc None \<lparr>Method = ''GET'', req_Close = True, Context = None\<rparr>
           (NewClientConn (Some 3) None))), [])"
proof -
  let ?rq = "\<lparr>Method = ''GET'', req_Close = True, Context = None\<rparr>"
  let ?s = "NewClientConn (Some 3) None"
  have c: "req_Close ?rq" by simp
  have p: "Ping ?s = None" by (simp add: Ping_def NewClientConn_def)
  have b: "\<not> bodyReading ?s" by (simp add: NewClientConn_def)
  have q: "reqch ?s = []" by (simp add: NewClientConn_def)
  have f: "writeReq ?s = Write_form" "conn ?s = Some 3" by (simp_all add: NewClientConn_def)
  note t = write_final_request [OF c p b, of None None "\<lparr>Method = ''GET'', req_Close = False, Context = None\<rparr>"]
  from t [THEN conjunct2, THEN conjunct2, THEN conjunct2, THEN conjunct1] q
  have "write_cc None ?rq ?s =
      (Returns None, ?s\<lparr>we := Some ErrPersistEOF, reqch := [?rq]\<rparr>,
       [WriteReq (writeReq ?s) ?rq (conn ?s)])"
    by blast
  then have w: "write_cc None ?rq ?s =
      (Returns None, ?s\<lparr>we := Some ErrPersistEOF, reqch := [?rq]\<rparr>, [WriteReq Write_form ?rq (Some 3)])"
    by (simp only: f)
  have pg: "Ping (?s\<lparr>we := Some ErrPersistEOF, reqch := [?rq]\<rparr>) = Some ErrPersistEOF"
    by (simp add: Ping_def NewClientConn_def)
  have l: "write_cc None \<lparr>Method = ''GET'', req_Close = False, Context = None\<rparr>
        (fst (snd (write_cc None ?rq ?s)))
      = (Returns (Some ErrPersistEOF), fst (snd (write_cc None ?rq ?s)), [])"
    using t [THEN conjunct2, THEN conjunct2, THEN conjunct2, THEN conjunct2, THEN conjunct2]
    by (simp add: w pg)
  from c p b w l show ?thesis by blast
qed

section \<open>Sticky errors\<close>

text \<open>
  C1, as the code has it: through any run, a \<open>re\<close> that is set stays set and a \<open>we\<close>
  that is set stays set, and once one of them is set the liveness check fails: with the
  \<open>re\<close> of the moment when there is one, with the \<open>we\<close> of the moment otherwise. The
  error it returns need not be the one first stored.
\<close>

theorem sticky_errors_stay_set:
  assumes "run as s = Some s'"
  shows "(re (cc s) \<noteq> None \<longrightarrow> re (cc s') \<noteq> None)
     \<and> (we (cc s) \<noteq> None \<longrightarrow> we (cc s') \<noteq> None)
     \<and> (re (cc s) \<noteq> None \<or> we (cc s) \<noteq> None \<longrightarrow>
          Ping (cc s') \<noteq> None
          \<and> Ping (cc s') = (if re (cc s') \<noteq> None then re (cc s') else we (cc s')))"
  using run_keeps [OF assms] by (auto simp: Ping_def)

theorem sticky_errors_stay_set_witness:
  "run [LoopPeekCall, LoopPeek (Some (OtherError ''EOF''))]
      \<lparr>cc = (NewClientConn (Some 3) None)\<lparr>we := Some ErrPersistEOF\<rparr>,
       loop = Waiting, writing = [], blocked = []\<rparr>
     = Some \<lparr>cc = (NewClientConn (Some 3) None)
                \<lparr>re := Some ErrServerClosedConn, we := Some ErrPersistEOF\<rparr>,
             loop = Stopped, writing = [], blocked = []\<rparr>
   \<and> Ping ((NewClientConn (Some 3) None)\<lparr>re := Some ErrServerClosedConn, we := Some ErrPersistEOF\<rparr>)
       = Some ErrServerClosedConn"
proof -
  have h: "run [LoopPeekCall, LoopPeek (Some (OtherError ''EOF''))]
      \<lparr>cc = (NewClientConn (Some 3) None)\<lparr>we := Some ErrPersistEOF\<rparr>,
       loop = Waiting, writing = [], blocked = []\<rparr>
     = Some \<lparr>cc = (NewClientConn (Some 3) None)
                \<lparr>re := Some ErrServerClosedConn, we := Some ErrPersistEOF\<rparr>,
             loop = Stopped, writing = [], blocked = []\<rparr>"
    by (simp add: conn_defs)
  from sticky_errors_stay_set [OF h] h show ?thesis by simp
qed

text \<open>
  C1 as stated fails: after a write of a request with \<open>Close\<close> set, \<open>we\<close> is
  \<open>ErrPersistEOF\<close> and the liveness check returns it; when the probe of the read loop
  then fails, the liveness check returns \<open>ErrServerClosedConn\<close>.
\<close>

theorem sticky_error_replaced:
  "Ping_after
      [WriteBegin \<lparr>Method = ''GET'', req_Close = True, Context = None\<rparr>,
       WriteEnd None \<lparr>Method = ''GET'', req_Close = True, Context = None\<rparr>]
      (start (Some 3) None) = Some (Some ErrPersistEOF)
   \<and> Ping_after
      [WriteBegin \<lparr>Method = ''GET'', req_Close = True, Context = None\<rparr>,
       WriteEnd None \<lparr>Method = ''GET'', req_Close = True, Context = None\<rparr>,
       LoopPeekCall,
       LoopPeek (Some (OtherError ''EOF''))]
      (start (Some 3) None) = Some (Some ErrServerClosedConn)"
  by (simp add: conn_defs)

section \<open>Close after Hijack\<close>

text \<open>
  C2: on a new connection, \<open>Close\<close> after \<open>Hijack\<close> panics, and so does a second
  \<open>Close\<close>: \<open>closech\<close> is the nil channel, and closing it is a run-time panic.
\<close>

theorem Close_after_Hijack_panics:
  "Close None (snd (Hijack (NewClientConn (Some 3) None)))
     = (Panics, snd (Hijack (NewClientConn (Some 3) None)), [])
   \<and> fst (Close None (fst (snd (Close None (NewClientConn (Some 3) None))))) = Panics"
  by (simp add: conn_defs)

section \<open>The iteration of the read loop\<close>

text \<open>
  C4, as the code has it: a body is expected unless the method is \<open>HEAD\<close> or the content
  length is zero. When none is expected the response queue and the flag stay as they
  were and the loop goes to its test: on to the next probe when the exchange was not
  judged the last one, out of the loop when it was. When one is expected the loop goes
  on to publish the wrapped response.
\<close>

theorem no_body_not_published:
  "(hasBody rc resp \<longleftrightarrow> \<not> (Method rc = ''HEAD'' \<or> ContentLength resp = 0))
   \<and> (\<not> hasBody rc resp \<longrightarrow>
        (\<exists>s'. readLoop_response rc (Inr resp) s
                = Returns (if last_exchange rc resp then Stopped else Waiting, s')
              \<and> respch s' = respch s \<and> bodyReading s' = bodyReading s))
   \<and> (hasBody rc resp \<longrightarrow>
        (\<exists>s'. readLoop_response rc (Inr resp) s
                = Returns (Publishing (resp\<lparr>Body := bodyEOFSignal (Body resp)\<rparr>)
                    (\<not> last_exchange rc resp), s')
              \<and> respch s' = respch s))"
  by (auto simp: readLoop_response_def hasBody_def loop_test_def setReadError_def Let_def)

theorem no_body_not_published_witness:
  "\<not> hasBody \<lparr>Method = ''GET'', req_Close = False, Context = None\<rparr>
       \<lparr>StatusCode = 200, resp_Close = False, ContentLength = 0, Body = ParsedBody []\<rparr>
   \<and> readLoop_response \<lparr>Method = ''GET'', req_Close = False, Context = None\<rparr>
      (Inr \<lparr>StatusCode = 200, resp_Close = False, ContentLength = 0, Body = ParsedBody []\<rparr>)
      (NewClientConn (Some 3) None)
     = Returns (Waiting, NewClientConn (Some 3) None)"
proof -
  let ?rc = "\<lparr>Method = ''GET'', req_Close = False, Context = None\<rparr>"
  let ?resp = "\<lparr>StatusCode = 200, resp_Close = False, ContentLength = 0, Body = ParsedBody []\<rparr>"
  note t = no_body_not_published [of ?rc ?resp "NewClientConn (Some 3) None"]
  from t have n: "\<not> hasBody ?rc ?resp" by simp
  from t n obtain s' where
    "readLoop_response ?rc (Inr ?resp) (NewClientConn (Some 3) None)
       = Returns (if last_exchange ?rc ?resp then Stopped else Waiting, s')"
    by blast
  then show ?thesis using n by (simp add: conn_defs)
qed

text \<open>
  C4 as stated fails: for a \<open>HEAD\<close> request whose response asks to close the connection
  no body is expected, and the loop leaves instead of going to the next probe.
\<close>

theorem no_body_last_exchange_stops:
  "\<not> hasBody \<lparr>Method = ''HEAD'', req_Close = False, Context = None\<rparr>
        \<lparr>StatusCode = 200, resp_Close = True, ContentLength = 5, Body = ParsedBody []\<rparr>
   \<and> readLoop_response \<lparr>Method = ''HEAD'', req_Close = False, Context = None\<rparr>
        (Inr \<lparr>StatusCode = 200, resp_Close = True, ContentLength = 5, Body = ParsedBody []\<rparr>)
        (NewClientConn (Some 3) None)
      = Returns (Stopped, (NewClientConn (Some 3) None)\<lparr>re := Some ErrServerClosedConn\<rparr>)
   \<and> step LoopPeekCall
        \<lparr>cc = (NewClientConn (Some 3) None)\<lparr>re := Some ErrServerClosedConn\<rparr>,
         loop = Stopped, writing = [], blocked = []\<rparr> = None"
  by (simp add: conn_defs)

text \<open>
  C8, as the code has it: the exchange is judged the last one exactly when the response
  or the request asks to close the connection or the status code is at most 199, which
  every informational code is, and every code below 100 too; for a code from 100 up
  this is the informational class. Then \<open>alive\<close> is false when the loop reaches its next
  blocking point, it is still false after the publication, the drain leaves the loop,
  and \<open>re\<close> is \<open>ErrServerClosedConn\<close>. Otherwise \<open>alive\<close> is true and \<open>re\<close> as before.
\<close>

theorem last_exchange_rule:
  "(last_exchange rc resp \<longleftrightarrow> resp_Close resp \<or> req_Close rc \<or> StatusCode resp \<le> 199)
   \<and> (spec_informational (StatusCode resp) \<longrightarrow> last_exchange rc resp)
   \<and> (100 \<le> StatusCode resp \<longrightarrow>
        (last_exchange rc resp \<longleftrightarrow>
           resp_Close resp \<or> req_Close rc \<or> spec_informational (StatusCode resp)))
   \<and> (last_exchange rc resp \<longrightarrow>
        (\<exists>l s'. readLoop_response rc (Inr resp) s = Returns (l, s')
           \<and> re s' = Some ErrServerClosedConn
           \<and> (l = Stopped \<or> l = Publishing (resp\<lparr>Body := bodyEOFSignal (Body resp)\<rparr>) False)))
   \<and> (\<not> last_exchange rc resp \<longrightarrow>
        (\<exists>l s'. readLoop_response rc (Inr resp) s = Returns (l, s')
           \<and> re s' = re s
           \<and> (l = Waiting \<or> l = Publishing (resp\<lparr>Body := bodyEOFSignal (Body resp)\<rparr>) True)))
   \<and> (\<forall>w t l t'. readLoop_publish w False t = Returns (l, t') \<longrightarrow> l = Draining False)
   \<and> (\<forall>p g t l t'. readLoop_drain p g False t = Returns (l, t') \<longrightarrow> l = Stopped)"
proof -
  have a: "last_exchange rc resp \<longleftrightarrow> resp_Close resp \<or> req_Close rc \<or> StatusCode resp \<le> 199"
    by (simp add: last_exchange_def)
  have b: "spec_informational (StatusCode resp) \<longrightarrow> last_exchange rc resp"
    by (simp add: last_exchange_def spec_informational_def)
  have c: "100 \<le> StatusCode resp \<longrightarrow>
      (last_exchange rc resp \<longleftrightarrow> resp_Close resp \<or> req_Close rc \<or> spec_informational (StatusCode resp))"
    by (simp add: last_exchange_def spec_informational_def)
  have d: "last_exchange rc resp \<longrightarrow>
      (\<exists>l s'. readLoop_response rc (Inr resp) s = Returns (l, s')
         \<and> re s' = Some ErrServerClosedConn
         \<and> (l = Stopped \<or> l = Publishing (resp\<lparr>Body := bodyEOFSignal (Body resp)\<rparr>) False))"
    by (auto simp: readLoop_response_def loop_test_def setReadError_def Let_def)
  have e: "\<not> last_exchange rc resp \<longrightarrow>
      (\<exists>l s'. readLoop_response rc (Inr resp) s = Returns (l, s')
         \<and> re s' = re s
         \<and> (l = Waiting \<or> l = Publishing (resp\<lparr>Body := bodyEOFSignal (Body resp)\<rparr>) True))"
    by (auto simp: readLoop_response_def loop_test_def setReadError_def Let_def)
  have f: "\<forall>w t l t'. readLoop_publish w False t = Returns (l, t') \<longrightarrow> l = Draining False"
    by (auto simp: readLoop_publish_def split: if_splits)
  have g: "\<forall>p g t l t'. readLoop_drain p g False t = Returns (l, t') \<longrightarrow> l = Stopped"
    by (auto simp: readLoop_drain_def loop_test_def split: if_splits option.splits)
  from a b c d e f g show ?thesis by blast
qed

theorem last_exchange_rule_witness:
  "spec_informational (StatusCode \<lparr>StatusCode = 101, resp_Close = False, ContentLength = 0, Body = ParsedBody []\<rparr>)
   \<and> last_exchange \<lparr>Method = ''GET'', req_Close = False, Context = None\<rparr>
      \<lparr>StatusCode = 101, resp_Close = False, ContentLength = 0, Body = ParsedBody []\<rparr>
   \<and> readLoop_response \<lparr>Method = ''GET'', req_Close = False, Context = None\<rparr>
        (Inr \<lparr>StatusCode = 101, resp_Close = False, ContentLength = 0, Body = ParsedBody []\<rparr>)
        (NewClientConn (Some 3) None)
      = Returns (Stopped, (NewClientConn (Some 3) None)\<lparr>re := Some ErrServerClosedConn\<rparr>)"
proof -
  let ?rc = "\<lparr>Method = ''GET'', req_Close = False, Context = None\<rparr>"
  let ?resp = "\<lparr>StatusCode = 101, resp_Close = False, ContentLength = 0, Body = ParsedBody []\<rparr>"
  have i: "spec_informational (StatusCode ?resp)" by (simp add: spec_informational_def)
  from last_exchange_rule [of ?rc ?resp "NewClientConn (Some 3) None"] i
  have l: "last_exchange ?rc ?resp"
    by blast
  then have "readLoop_response ?rc (Inr ?resp) (NewClientConn (Some 3) None)
      = Returns (Stopped, (NewClientConn (Some 3) None)\<lparr>re := Some ErrServerClosedConn\<rparr>)"
    by (simp add: conn_defs)
  with i l show ?thesis by blast
qed

text \<open>
  C8 as stated fails: a response with status code 99 that does not ask to close the
  connection, to a request that does not either, is no informational reply, and the
  exchange is judged the last one.
\<close>

theorem last_exchange_below_100:
  "\<not> spec_informational 99
   \<and> \<not> resp_Close \<lparr>StatusCode = 99, resp_Close = False, ContentLength = 5, Body = ParsedBody ''hello''\<rparr>
   \<and> \<not> req_Close \<lparr>Method = ''GET'', req_Close = False, Context = None\<rparr>
   \<and> last_exchange \<lparr>Method = ''GET'', req_Close = False, Context = None\<rparr>
        \<lparr>StatusCode = 99, resp_Close = False, ContentLength = 5, Body = ParsedBody ''hello''\<rparr>
   \<and> readLoop_response \<lparr>Method = ''GET'', req_Close = False, Context = None\<rparr>
        (Inr \<lparr>StatusCode = 99, resp_Close = False, ContentLength = 5, Body = ParsedBody ''hello''\<rparr>)
        (NewClientConn (Some 3) None)
      = Returns
          (Publishing
             \<lparr>StatusCode = 99, resp_Close = False, ContentLength = 5,
              Body = bodyEOFSignal (ParsedBody ''hello'')\<rparr> False,
           (NewClientConn (Some 3) None)\<lparr>re := Some ErrServerClosedConn\<rparr>)"
  by (simp add: conn_defs spec_informational_def)

text \<open>
  C5, as the code has it: when the \<open>select\<close> takes the outcome of the body and the
  outcome is that the body was not read to its end, the loop leaves, with \<open>bodyReading\<close>
  false and \<open>re\<close> set to \<open>ErrBodyLeftData\<close>, whatever \<open>re\<close> held before. When the
  outcome is that the body was read to its end, \<open>re\<close> is as before and the loop goes on
  when \<open>alive\<close> was true.
\<close>

theorem body_left_marks_dead:
  assumes "\<not> (closech s = ClosedChan \<and> pick_close)"
  shows "readLoop_drain pick_close (Some False) alive s
           = Returns (Stopped, s\<lparr>re := Some ErrBodyLeftData, bodyReading := False\<rparr>)
     \<and> readLoop_drain pick_close (Some True) alive s
           = Returns (if alive then Waiting else Stopped, s\<lparr>bodyReading := False\<rparr>)"
  using assms
  by (auto simp: readLoop_drain_def loop_test_def setReadError_def setBodyReading_def)

theorem body_left_marks_dead_witness:
  "\<not> (closech ((NewClientConn (Some 3) None)\<lparr>bodyReading := True\<rparr>) = ClosedChan \<and> False)
   \<and> readLoop_drain False (Some False) True ((NewClientConn (Some 3) None)\<lparr>bodyReading := True\<rparr>)
      = Returns (Stopped, (NewClientConn (Some 3) None)\<lparr>re := Some ErrBodyLeftData\<rparr>)"
proof -
  have h: "\<not> (closech ((NewClientConn (Some 3) None)\<lparr>bodyReading := True\<rparr>) = ClosedChan \<and> False)"
    by simp
  from body_left_marks_dead [OF h, of True] h show ?thesis
    by (simp add: NewClientConn_def)
qed

text \<open>
  C5 as stated fails: the response asks to close the connection, so the iteration sets
  \<open>re\<close> to \<open>ErrServerClosedConn\<close>; the caller then closes the body early, and the
  drain stores \<open>ErrBodyLeftData\<close> over it.
\<close>

theorem body_left_overwrites:
  "run [WriteBegin \<lparr>Method = ''GET'', req_Close = False, Context = None\<rparr>,
        WriteEnd None \<lparr>Method = ''GET'', req_Close = False, Context = None\<rparr>,
        LoopPeekCall,
        LoopPeek None,
        LoopPull,
        LoopResponse (Inr \<lparr>StatusCode = 200, resp_Close = True, ContentLength = 5,
                           Body = ParsedBody ''hello''\<rparr>),
        LoopPublish,
        DoRead False \<lparr>Method = ''GET'', req_Close = False, Context = None\<rparr>]
      (start (Some 3) None)
     = Some \<lparr>cc = (NewClientConn (Some 3) None)
                \<lparr>bodyReading := True, re := Some ErrServerClosedConn\<rparr>,
             loop = Draining False, writing = [], blocked = []\<rparr>
   \<and> readLoop_drain False (Some False) False
        ((NewClientConn (Some 3) None)\<lparr>bodyReading := True, re := Some ErrServerClosedConn\<rparr>)
      = Returns (Stopped, (NewClientConn (Some 3) None)\<lparr>re := Some ErrBodyLeftData\<rparr>)"
  by (simp add: conn_defs)

section \<open>Cancellation of a read\<close>

text \<open>
  C6, as the code has it: when the context is done and no response is queued, \<open>read\<close>
  returns the error of the context and stores it in \<open>re\<close>, so that the liveness check
  returns it there; after any run from there the liveness check fails, with the \<open>re\<close>
  of the moment, which a later operation may have stored over that error.
\<close>

theorem read_cancelled:
  assumes "respch s = []" and "Context req = Some e"
  shows "read pick_cancel req s = (Returns (None, Some e), s\<lparr>re := Some e\<rparr>)
     \<and> Ping (s\<lparr>re := Some e\<rparr>) = Some e
     \<and> (\<forall>as l w b t.
          run as \<lparr>cc = s\<lparr>re := Some e\<rparr>, loop = l, writing = w, blocked = b\<rparr> = Some t \<longrightarrow>
          Ping (cc t) \<noteq> None \<and> Ping (cc t) = re (cc t))"
proof -
  from assms have a: "read pick_cancel req s = (Returns (None, Some e), s\<lparr>re := Some e\<rparr>)"
    by (simp add: read_def setReadError_def)
  have b: "Ping (s\<lparr>re := Some e\<rparr>) = Some e"
    by (simp add: Ping_def)
  have c: "Ping (cc t) \<noteq> None \<and> Ping (cc t) = re (cc t)"
    if "run as \<lparr>cc = s\<lparr>re := Some e\<rparr>, loop = l, writing = w, blocked = b\<rparr> = Some t"
    for as l w b t
    using run_keeps [OF that] by (auto simp: Ping_def)
  from a b c show ?thesis by blast
qed

theorem read_cancelled_witness:
  "respch (NewClientConn (Some 3) None) = []
   \<and> Context \<lparr>Method = ''GET'', req_Close = False, Context = Some (OtherError ''context canceled'')\<rparr>
       = Some (OtherError ''context canceled'')
   \<and> read False \<lparr>Method = ''GET'', req_Close = False, Context = Some (OtherError ''context canceled'')\<rparr>
        (NewClientConn (Some 3) None)
      = (Returns (None, Some (OtherError ''context canceled'')),
         (NewClientConn (Some 3) None)\<lparr>re := Some (OtherError ''context canceled'')\<rparr>)
   \<and> Ping ((NewClientConn (Some 3) None)\<lparr>re := Some (OtherError ''context canceled'')\<rparr>)
      = Some (OtherError ''context canceled'')
   \<and> run [LoopPeek (Some (OtherError ''EOF''))]
        \<lparr>cc = (NewClientConn (Some 3) None)\<lparr>re := Some (OtherError ''context canceled'')\<rparr>,
         loop = Peeking, writing = [], blocked = []\<rparr>
      = Some \<lparr>cc = (NewClientConn (Some 3) None)\<lparr>re := Some ErrServerClosedConn\<rparr>,
              loop = Stopped, writing = [], blocked = []\<rparr>
   \<and> Ping ((NewClientConn (Some 3) None)\<lparr>re := Some ErrServerClosedConn\<rparr>)
      = Some ErrServerClosedConn"
proof -
  let ?e = "OtherError ''context canceled''"
  have q: "respch (NewClientConn (Some 3) None) = []"
    by (simp add: NewClientConn_def)
  have x: "Context \<lparr>Method = ''GET'', req_Close = False, Context = Some ?e\<rparr> = Some ?e"
    by simp
  have h: "run [LoopPeek (Some (OtherError ''EOF''))]
        \<lparr>cc = (NewClientConn (Some 3) None)\<lparr>re := Some ?e\<rparr>,
         loop = Peeking, writing = [], blocked = []\<rparr>
      = Some \<lparr>cc = (NewClientConn (Some 3) None)\<lparr>re := Some ErrServerClosedConn\<rparr>,
              loop = Stopped, writing = [], blocked = []\<rparr>"
    by (simp add: conn_defs)
  note t = read_cancelled [OF q x, of False]
  from t h have "Ping (cc \<lparr>cc = (NewClientConn (Some 3) None)\<lparr>re := Some ErrServerClosedConn\<rparr>,
              loop = Stopped, writing = [], blocked = []\<rparr>)
      = re (cc \<lparr>cc = (NewClientConn (Some 3) None)\<lparr>re := Some ErrServerClosedConn\<rparr>,
              loop = Stopped, writing = [], blocked = []\<rparr>)"
    by blast
  then have p: "Ping ((NewClientConn (Some 3) None)\<lparr>re := Some ErrServerClosedConn\<rparr>)
      = Some ErrServerClosedConn"
    by simp
  from t q x h p show ?thesis by blast
qed

text \<open>
  C6 as stated fails: the read of a written request is cancelled, and the liveness check
  returns the error of the context; the server then closes the stream, the probe of the
  read loop fails, and the liveness check returns \<open>ErrServerClosedConn\<close>.
\<close>

theorem cancellation_error_replaced:
  "Ping_after
      [WriteBegin \<lparr>Method = ''GET'', req_Close = False, Context = None\<rparr>,
       WriteEnd None \<lparr>Method = ''GET'', req_Close = False, Context = None\<rparr>,
       LoopPeekCall,
       DoRead False \<lparr>Method = ''GET'', req_Close = False,
                     Context = Some (OtherError ''context canceled'')\<rparr>]
      (start (Some 3) None) = Some (Some (OtherError ''context canceled''))
   \<and> Ping_after
      [WriteBegin \<lparr>Method = ''GET'', req_Close = False, Context = None\<rparr>,
       WriteEnd None \<lparr>Method = ''GET'', req_Close = False, Context = None\<rparr>,
       LoopPeekCall,
       DoRead False \<lparr>Method = ''GET'', req_Close = False,
                     Context = Some (OtherError ''context canceled'')\<rparr>,
       LoopPeek (Some (OtherError ''EOF''))]
      (start (Some 3) None) = Some (Some ErrServerClosedConn)"
  by (simp add: conn_defs)

section \<open>Hijack\<close>

text \<open>
  C9, as the code has it: \<open>Hijack\<close> returns the transport and the reader and leaves both
  fields nil; a second call returns two nils and changes nothing; from then on, through
  any run, the liveness check fails: with \<open>re\<close> when it is set, else with \<open>we\<close> when
  it is set, and with \<open>errClosed\<close> only when neither is.
\<close>

theorem Hijack_twice:
  "fst (Hijack s) = (conn s, r s)
   \<and> conn (snd (Hijack s)) = None \<and> r (snd (Hijack s)) = None
   \<and> Hijack (snd (Hijack s)) = ((None, None), snd (Hijack s))
   \<and> Ping (snd (Hijack s))
       = (if re s \<noteq> None then re s else if we s \<noteq> None then we s else Some errClosed)
   \<and> (\<forall>as l w b t.
        run as \<lparr>cc = snd (Hijack s), loop = l, writing = w, blocked = b\<rparr> = Some t \<longrightarrow>
        Ping (cc t) \<noteq> None
        \<and> Ping (cc t)
            = (if re (cc t) \<noteq> None then re (cc t)
               else if we (cc t) \<noteq> None then we (cc t) else Some errClosed))"
proof -
  have a: "fst (Hijack s) = (conn s, r s) \<and> conn (snd (Hijack s)) = None \<and> r (snd (Hijack s)) = None
      \<and> Hijack (snd (Hijack s)) = ((None, None), snd (Hijack s))"
    by (simp add: Hijack_def)
  have b: "Ping (snd (Hijack s))
      = (if re s \<noteq> None then re s else if we s \<noteq> None then we s else Some errClosed)"
    by (simp add: Hijack_def Ping_def)
  have c: "Ping (cc t) \<noteq> None
      \<and> Ping (cc t) = (if re (cc t) \<noteq> None then re (cc t)
                       else if we (cc t) \<noteq> None then we (cc t) else Some errClosed)"
    if "run as \<lparr>cc = snd (Hijack s), loop = l, writing = w, blocked = b\<rparr> = Some t"
    for as l w b t
    using run_keeps [OF that] by (auto simp: Ping_def Hijack_def)
  from a b c show ?thesis by blast
qed

theorem Hijack_twice_witness:
  "run [WriteBegin \<lparr>Method = ''GET'', req_Close = False, Context = None\<rparr>]
      \<lparr>cc = snd (Hijack (NewClientConn (Some 3) None)), loop = Waiting, writing = [], blocked = []\<rparr>
     = Some \<lparr>cc = snd (Hijack (NewClientConn (Some 3) None)), loop = Waiting,
             writing = [], blocked = []\<rparr>
   \<and> fst (Hijack (NewClientConn (Some 3) None)) = (Some 3, Some (NewReader (Some 3)))
   \<and> Ping (snd (Hijack (NewClientConn (Some 3) None))) = Some errClosed"
proof -
  let ?h = "snd (Hijack (NewClientConn (Some 3) None))"
  have h: "run [WriteBegin \<lparr>Method = ''GET'', req_Close = False, Context = None\<rparr>]
      \<lparr>cc = ?h, loop = Waiting, writing = [], blocked = []\<rparr>
     = Some \<lparr>cc = ?h, loop = Waiting, writing = [], blocked = []\<rparr>"
    by (simp add: conn_defs)
  have v: "re ?h = None" "we ?h = None"
    "conn (NewClientConn (Some 3) None) = Some 3"
    "r (NewClientConn (Some 3) None) = Some (NewReader (Some 3))"
    by (simp_all add: Hijack_def NewClientConn_def)
  note t = Hijack_twice [of "NewClientConn (Some 3) None"]
  from t have "fst (Hijack (NewClientConn (Some 3) None))
      = (conn (NewClientConn (Some 3) None), r (NewClientConn (Some 3) None))"
    by blast
  then have a: "fst (Hijack (NewClientConn (Some 3) None)) = (Some 3, Some (NewReader (Some 3)))"
    by (simp only: v)
  from t h have "Ping (cc \<lparr>cc = ?h, loop = Waiting, writing = [], blocked = []\<rparr>)
      = (if re (cc \<lparr>cc = ?h, loop = Waiting, writing = [], blocked = []\<rparr>) \<noteq> None
         then re (cc \<lparr>cc = ?h, loop = Waiting, writing = [], blocked = []\<rparr>)
         else if we (cc \<lparr>cc = ?h, loop = Waiting, writing = [], blocked = []\<rparr>) \<noteq> None
              then we (cc \<lparr>cc = ?h, loop = Waiting, writing = [], blocked = []\<rparr>)
              else Some errClosed)"
    by blast
  with v have p: "Ping ?h = Some errClosed"
    by simp
  from h a p show ?thesis by blast
qed

text \<open>
  C9 as stated fails: the probe of the read loop fails, which sets \<open>re\<close>; after a
  \<open>Hijack\<close> the liveness check returns \<open>ErrServerClosedConn\<close>, not \<open>errClosed\<close>.
\<close>

theorem Ping_after_Hijack_not_closed:
  "Ping_after [LoopPeekCall, LoopPeek (Some (OtherError ''EOF'')), DoHijack] (start (Some 3) None)
     = Some (Some ErrServerClosedConn)
   \<and> Some ErrServerClosedConn \<noteq> Some errClosed"
  by (simp add: conn_defs)

end
